theory Spec2Isabelle
  imports Main "HOL-Library.Multiset" "HOL-Library.Sublist"
begin

section \<open>Strings and characters\<close>

text \<open>
  A JavaScript string is modelled as a \<^typ>\<open>string\<close>, each \<^typ>\<open>char\<close> standing for the
  UTF-16 code unit of the same number (U+0000 to U+00FF, that is ASCII and Latin-1).
  On these code units the character classes of the regular expressions and the case
  mapping of \<^verbatim>\<open>toLowerCase\<close> are the ones below.
\<close>

definition code :: "char \<Rightarrow> nat" where
  "code c = of_char c"

definition is_space :: "char \<Rightarrow> bool" where
  \<comment> \<open>the class \<^verbatim>\<open>\s\<close>: TAB, LF, VT, FF, CR, SPACE and NO-BREAK SPACE\<close>
  "is_space c = (code c \<in> {9, 10, 11, 12, 13, 32, 160})"

definition is_word :: "char \<Rightarrow> bool" where
  \<comment> \<open>the class \<^verbatim>\<open>\w\<close>: \<^verbatim>\<open>[A-Za-z0-9_]\<close>\<close>
  "is_word c = (let n = code c in
     (48 \<le> n \<and> n \<le> 57) \<or> (65 \<le> n \<and> n \<le> 90) \<or> n = 95 \<or> (97 \<le> n \<and> n \<le> 122))"

definition lower_char :: "char \<Rightarrow> char" where
  \<comment> \<open>A to Z, and the Latin-1 capitals U+00C0 to U+00DE without the sign U+00D7\<close>
  "lower_char c = (let n = code c in
     if (65 \<le> n \<and> n \<le> 90) \<or> (192 \<le> n \<and> n \<le> 222 \<and> n \<noteq> 215)
     then char_of (n + 32) else c)"

definition toLowerCase :: "string \<Rightarrow> string" where
  "toLowerCase s = map lower_char s"

function replace_spaces :: "string \<Rightarrow> string" where
  \<comment> \<open>\<^verbatim>\<open>.replace(/\s+/g, "-")\<close>: every maximal run of white space becomes one hyphen\<close>
  "replace_spaces [] = []"
| "replace_spaces (c # cs) =
     (if is_space c then CHR ''-'' # replace_spaces (dropWhile is_space cs)
      else c # replace_spaces cs)"
  by pat_completeness auto
termination
  by (relation "measure length") (auto simp: le_imp_less_Suc length_dropWhile_le)

fun replace_amp :: "string \<Rightarrow> string" where
  \<comment> \<open>\<^verbatim>\<open>.replace(/&/g, "-and-")\<close>\<close>
  "replace_amp [] = []"
| "replace_amp (c # cs) =
     (if c = CHR ''&'' then ''-and-'' @ replace_amp cs else c # replace_amp cs)"

definition remove_non_word :: "string \<Rightarrow> string" where
  \<comment> \<open>\<^verbatim>\<open>.replace(/[^\w\-]+/g, "")\<close>\<close>
  "remove_non_word s = filter (\<lambda>c. is_word c \<or> c = CHR ''-'') s"

function collapse_hyphens :: "string \<Rightarrow> string" where
  \<comment> \<open>\<^verbatim>\<open>.replace(/\-\-+/g, "-")\<close>: a run of two or more hyphens becomes one hyphen\<close>
  "collapse_hyphens [] = []"
| "collapse_hyphens (c # cs) =
     (if c = CHR ''-'' then CHR ''-'' # collapse_hyphens (dropWhile (\<lambda>d. d = CHR ''-'') cs)
      else c # collapse_hyphens cs)"
  by pat_completeness auto
termination
  by (relation "measure length") (auto simp: le_imp_less_Suc length_dropWhile_le)

definition normalize_text :: "string \<Rightarrow> string" where
  "normalize_text text =
     collapse_hyphens (remove_non_word (replace_amp (replace_spaces (toLowerCase text))))"


section \<open>Heading content and the slug deriver\<close>

text \<open>
  A number is \<^verbatim>\<open>NaN\<close>, an infinity, a zero, or a finite value other than zero given by
  its sign and the two integers of \<^verbatim>\<open>Number::toString\<close> in the language standard: the
  decimal significand \<open>s\<close> (the shortest one, of \<open>k\<close> digits) and the exponent \<open>n\<close>, the
  value being \<open>s \<times> 10^(n - k)\<close>. So \<^verbatim>\<open>42\<close> is \<open>Finite False 42 2\<close>, \<^verbatim>\<open>1.5\<close> is
  \<open>Finite False 15 1\<close> and \<^verbatim>\<open>1e21\<close> is \<open>Finite False 1 22\<close>. Which \<open>s\<close> and \<open>n\<close> belong to
  a binary floating-point value is not modelled.
\<close>

datatype number = NaN | Infinity (negative: bool) | Zero | Finite (negative: bool) nat int

text \<open>
  The primitive values other than strings: \<^verbatim>\<open>String\<close> converts each of them and never
  throws. A symbol is given by its optional description.
\<close>

datatype prim =
  Number number | BigInt int | Boolean bool | Null | Undefined | Symbol "string option"

text \<open>
  A \<^verbatim>\<open>ReactNode\<close>: a string, a React element (of which only \<^verbatim>\<open>props.children\<close> matters
  here), an array of nodes, or a primitive value; an element without children has the
  children \<open>Prim Undefined\<close>.
\<close>

datatype node = Str string | Elem element | Arr "node list" | Prim prim
  and element = Element node

fun digits :: "nat \<Rightarrow> string" where
  "digits n = (if n < 10 then [char_of (48 + n)] else digits (n div 10) @ [char_of (48 + n mod 10)])"

declare digits.simps [simp del]

definition toString_finite :: "nat \<Rightarrow> int \<Rightarrow> string" where
  \<comment> \<open>steps 5 to 11 of \<^verbatim>\<open>Number::toString\<close> for radix 10\<close>
  "toString_finite s n =
     (let ds = digits s; k = int (length ds) in
      if - 5 \<le> n \<and> n \<le> 21 then
        (if n \<ge> k then ds @ replicate (nat (n - k)) CHR ''0''
         else if n > 0 then take (nat n) ds @ ''.'' @ drop (nat n) ds
         else ''0.'' @ replicate (nat (- n)) CHR ''0'' @ ds)
      else
        (let exponentSign = (if n < 0 then ''-'' else ''+'');
             e = digits (nat \<bar>n - 1\<bar>)
         in if k = 1 then ds @ ''e'' @ exponentSign @ e
            else take 1 ds @ ''.'' @ drop 1 ds @ ''e'' @ exponentSign @ e))"

fun String_number :: "number \<Rightarrow> string" where
  "String_number NaN = ''NaN''"
| "String_number (Infinity neg) = (if neg then ''-Infinity'' else ''Infinity'')"
| "String_number Zero = ''0''"
| "String_number (Finite neg s n) = (if neg then ''-'' else []) @ toString_finite s n"

fun String_prim :: "prim \<Rightarrow> string" where
  \<comment> \<open>\<^verbatim>\<open>String(v)\<close> on the primitive values\<close>
  "String_prim (Number x) = String_number x"
| "String_prim (BigInt i) = (if i < 0 then CHR ''-'' # digits (nat (- i)) else digits (nat i))"
| "String_prim (Boolean b) = (if b then ''true'' else ''false'')"
| "String_prim Null = ''null''"
| "String_prim Undefined = ''undefined''"
| "String_prim (Symbol description) =
     ''Symbol('' @ (case description of None \<Rightarrow> [] | Some d \<Rightarrow> d) @ '')''"

fun extractTextFromElement :: "element \<Rightarrow> string" where
  "extractTextFromElement (Element children) =
     (case children of
        Str s \<Rightarrow> s
      | Arr cs \<Rightarrow>
          concat (map (\<lambda>child. case child of
                                  Str s \<Rightarrow> s
                                | Elem e \<Rightarrow> extractTextFromElement e
                                | _ \<Rightarrow> []) cs)
      | _ \<Rightarrow> [])"

definition to_text :: "node \<Rightarrow> string" where
  \<comment> \<open>the first half of \<^verbatim>\<open>slugify\<close>: the value of \<^verbatim>\<open>text\<close>\<close>
  "to_text str =
     (case str of
        Str s \<Rightarrow> s
      | Elem e \<Rightarrow> extractTextFromElement e
      | Arr items \<Rightarrow>
          concat (map (\<lambda>item. case item of
                                 Str s \<Rightarrow> s
                               | Elem e \<Rightarrow> extractTextFromElement e
                               | _ \<Rightarrow> []) items)
      | Prim v \<Rightarrow> String_prim v)"

definition slugify :: "node \<Rightarrow> string" where
  "slugify str = normalize_text (to_text str)"

text \<open>
  \<^verbatim>\<open>slugify\<close> on any JavaScript value. On the values above no step of it can throw. Any
  other value is an object that is neither an element nor an array and reaches
  \<^verbatim>\<open>String(str)\<close>, which converts the object to a primitive by the object's own methods
  (\<^verbatim>\<open>Symbol.toPrimitive\<close>, \<^verbatim>\<open>toString\<close>, \<^verbatim>\<open>valueOf\<close>). Such an object is given by the
  completion of that conversion: an exception (a \<^verbatim>\<open>TypeError\<close> when no method yields a
  primitive, as for \<^verbatim>\<open>Object.create(null)\<close>, or what a method throws), or the primitive
  it returns. \<^verbatim>\<open>String\<close> then converts the primitive, and throws a \<^verbatim>\<open>TypeError\<close> on a
  symbol obtained this way. A plain object \<^verbatim>\<open>{}\<close> is
  \<open>Object (Returns_string ''[object Object]'')\<close>.
\<close>

datatype exn = TypeError | Thrown string

datatype completion = Throws exn | Returns_string string | Returns prim

datatype js_value = Node node | Object completion

fun String_object :: "completion \<Rightarrow> exn + string" where
  "String_object (Throws e) = Inl e"
| "String_object (Returns_string s) = Inr s"
| "String_object (Returns (Symbol description)) = Inl TypeError"
| "String_object (Returns v) = Inr (String_prim v)"

fun slugify_value :: "js_value \<Rightarrow> exn + string" where
  "slugify_value (Node str) = Inr (slugify str)"
| "slugify_value (Object c) =
     (case String_object c of
        Inl e \<Rightarrow> Inl e
      | Inr text \<Rightarrow> Inr (normalize_text text))"

fun is_symbol :: "prim \<Rightarrow> bool" where
  "is_symbol (Symbol description) = True"
| "is_symbol v = False"

text \<open>
  The flattening as the specification words it: the string leaves in document order,
  descending into the children of every markup node; anything else contributes nothing.
\<close>

fun flatten_spec :: "node \<Rightarrow> string" where
  "flatten_spec (Str s) = s"
| "flatten_spec (Elem (Element children)) = flatten_spec children"
| "flatten_spec (Arr cs) = concat (map flatten_spec cs)"
| "flatten_spec (Prim v) = []"

text \<open>The shape of a slug: lower-case letters, digits, underscore and single hyphens.\<close>

definition slug_char :: "char \<Rightarrow> bool" where
  "slug_char c = (let n = code c in
     (48 \<le> n \<and> n \<le> 57) \<or> n = 95 \<or> (97 \<le> n \<and> n \<le> 122) \<or> n = 45)"

fun no_double_hyphen :: "string \<Rightarrow> bool" where
  "no_double_hyphen [] = True"
| "no_double_hyphen [c] = True"
| "no_double_hyphen (c # d # cs) = (\<not> (c = CHR ''-'' \<and> d = CHR ''-'') \<and> no_double_hyphen (d # cs))"

definition is_slug :: "string \<Rightarrow> bool" where
  "is_slug s = (list_all slug_char s \<and> no_double_hyphen s)"


definition is_upper :: "char \<Rightarrow> bool" where
  "is_upper c = (65 \<le> code c \<and> code c \<le> 90)"

section \<open>Node transformers\<close>

text \<open>
  A props object is a map from attribute names to values. A JSX spread \<^verbatim>\<open>{...props}\<close>
  written after explicit attributes is \<open>explicit ++ props\<close>: the later entry wins.
  Destructuring \<^verbatim>\<open>{ a, b, ...props }\<close> leaves in \<^verbatim>\<open>props\<close> every key but \<^verbatim>\<open>a\<close> and \<^verbatim>\<open>b\<close>.
\<close>

datatype jsval = VStr string | VBool bool | VUndefined

type_synonym props = "string \<rightharpoonup> jsval"

definition without :: "props \<Rightarrow> string set \<Rightarrow> props" where
  "without p ks = p |` (- ks)"

datatype comp = SmartLink | SmartImage | Tag string

datatype 'c rendered = Rendered (component: comp) (attrs: props) (kids: "'c option")

definition CustomLink :: "string \<Rightarrow> 'c \<Rightarrow> props \<Rightarrow> 'c rendered" where
  "CustomLink href children other =
     (let props = without other {''href'', ''children''} in
      if prefix ''/'' href then
        Rendered SmartLink ([''href'' \<mapsto> VStr href] ++ props) (Some children)
      else if prefix ''#'' href then
        Rendered (Tag ''a'') ([''href'' \<mapsto> VStr href] ++ props) (Some children)
      else
        Rendered (Tag ''a'')
          ([''href'' \<mapsto> VStr href, ''target'' \<mapsto> VStr ''_blank'',
            ''rel'' \<mapsto> VStr ''noopener noreferrer''] ++ props)
          (Some children))"

definition spread_over :: "jsval \<Rightarrow> jsval option \<Rightarrow> jsval option" where
  \<comment> \<open>the value of an attribute with the explicit value \<open>d\<close> after a spread that holds \<open>v\<close>\<close>
  "spread_over d v = (case v of None \<Rightarrow> Some d | Some w \<Rightarrow> Some w)"

text \<open>
  \<^verbatim>\<open>createImage\<close> writes to the console: the console is a list of messages, passed in
  and returned. \<^verbatim>\<open>src\<close> and \<^verbatim>\<open>alt\<close> may be absent (\<open>None\<close>); \<^verbatim>\<open>!src\<close> holds of an
  absent and of an empty \<^verbatim>\<open>src\<close>. The result \<open>None\<close> is \<^verbatim>\<open>null\<close>.
\<close>

type_synonym console = "string list"

definition of_optional :: "string option \<Rightarrow> jsval" where
  "of_optional v = (case v of None \<Rightarrow> VUndefined | Some s \<Rightarrow> VStr s)"

definition falsy :: "string option \<Rightarrow> bool" where
  "falsy v = (case v of None \<Rightarrow> True | Some s \<Rightarrow> s = [])"

definition createImage ::
  "string option \<Rightarrow> string option \<Rightarrow> props \<Rightarrow> console \<Rightarrow> 'c rendered option \<times> console" where
  "createImage alt src other log =
     (let props = without other {''alt'', ''src''} in
      if falsy src then
        (None, log @ [''SmartImage requires a valid 'src' property.''])
      else
        (Some (Rendered SmartImage
           ([''marginTop'' \<mapsto> VStr ''8'', ''marginBottom'' \<mapsto> VStr ''16'',
             ''enlarge'' \<mapsto> VBool True, ''radius'' \<mapsto> VStr ''m'',
             ''aspectRatio'' \<mapsto> VStr ''16 / 9'', ''border'' \<mapsto> VStr ''neutral-alpha-medium'',
             ''sizes'' \<mapsto> VStr ''(max-width: 960px) 100vw, 960px'',
             ''alt'' \<mapsto> of_optional alt, ''src'' \<mapsto> of_optional src] ++ props)
           None), log))"

text \<open>
  \<^verbatim>\<open>createCodeBlock\<close>. The \<^verbatim>\<open>children\<close> of a \<^verbatim>\<open>pre\<close> are absent, a string, or an
  element with an optional \<^verbatim>\<open>className\<close> and its own children (the code).
  \<^verbatim>\<open>String.prototype.replace\<close> with a string pattern replaces the first occurrence.
  \<^verbatim>\<open>toUpperCase\<close> is the ASCII and Latin-1 mapping (\<^verbatim>\<open>U+00DF\<close> becomes \<^verbatim>\<open>SS\<close>); the
  capitals of \<^verbatim>\<open>U+00B5\<close> and \<^verbatim>\<open>U+00FF\<close> lie beyond \<^verbatim>\<open>U+00FF\<close>, outside the code units
  modelled here, and these two are left as they are.
\<close>

fun replace_first :: "string \<Rightarrow> string \<Rightarrow> string \<Rightarrow> string" where
  "replace_first pat rep [] = (if pat = [] then rep else [])"
| "replace_first pat rep (c # cs) =
     (if prefix pat (c # cs) then rep @ drop (length pat) (c # cs)
      else c # replace_first pat rep cs)"

definition upper_char :: "char \<Rightarrow> string" where
  "upper_char c = (let n = code c in
     if (97 \<le> n \<and> n \<le> 122) \<or> (224 \<le> n \<and> n \<le> 254 \<and> n \<noteq> 247) then [char_of (n - 32)]
     else if n = 223 then ''SS''
     else [c])"

definition toUpperCase :: "string \<Rightarrow> string" where
  "toUpperCase s = concat (map upper_char s)"

record 'c code_instance =
  code_of :: 'c
  language :: string
  label :: string

datatype 'c pre_child = Absent | RawText string | CodeElement (className: "string option") 'c

datatype 'c block =
    CodeBlock (marginTop: string) (marginBottom: string)
      (codeInstances: "'c code_instance list") (copyButton: bool)
  | Pre "'c pre_child" props

fun createCodeBlock :: "'c pre_child \<Rightarrow> props \<Rightarrow> 'c block" where
  "createCodeBlock (CodeElement (Some cls) children) other =
     (if cls \<noteq> [] then
        (let language = replace_first ''language-'' [] cls;
             label = toUpperCase (take 1 language) @ drop 1 language
         in CodeBlock ''8'' ''16''
              [\<lparr>code_of = children, language = language, label = label\<rparr>] True)
      else Pre (CodeElement (Some cls) children) other)"
| "createCodeBlock child other = Pre child other"

section \<open>The transformer table and the content renderer\<close>

text \<open>
  An entry of the table: one of the transformers of this file, a component of the UI
  library, a lazily loaded component, or whatever a caller supplies.
\<close>

datatype 'f transformer =
    createParagraph | createHeading string | Image | Link | createInlineCode | CodeFence
  | Component string | Dynamic string | Supplied 'f

definition components :: "string \<rightharpoonup> 'f transformer" where
  "components = map_of
     [(''p'', createParagraph),
      (''h1'', createHeading ''h1''), (''h2'', createHeading ''h2''),
      (''h3'', createHeading ''h3''), (''h4'', createHeading ''h4''),
      (''h5'', createHeading ''h5''), (''h6'', createHeading ''h6''),
      (''img'', Image), (''a'', Link), (''code'', createInlineCode), (''pre'', CodeFence),
      (''Heading'', Component ''Heading''), (''Text'', Component ''Text''),
      (''CodeBlock'', Component ''CodeBlock''), (''InlineCode'', Component ''InlineCode''),
      (''Accordion'', Dynamic ''Accordion''), (''AccordionGroup'', Dynamic ''AccordionGroup''),
      (''Table'', Dynamic ''Table''), (''Feedback'', Dynamic ''Feedback''),
      (''Button'', Dynamic ''Button''), (''Card'', Dynamic ''Card''),
      (''Grid'', Dynamic ''Grid''), (''Row'', Dynamic ''Row''),
      (''Column'', Dynamic ''Column''), (''Icon'', Dynamic ''Icon''),
      (''SmartImage'', Dynamic ''SmartImage''), (''SmartLink'', Dynamic ''SmartLink'')]"

record 'f mdx_props =
  source :: string
  components_prop :: "(string \<rightharpoonup> 'f transformer) option"

definition CustomMDX :: "'f mdx_props \<Rightarrow> 'f mdx_props" where
  \<comment> \<open>the props handed to \<^verbatim>\<open>MDXRemote\<close>\<close>
  "CustomMDX props =
     props\<lparr>components_prop :=
       Some (components ++ (case components_prop props of None \<Rightarrow> Map.empty | Some ov \<Rightarrow> ov))\<rparr>"

definition merged_table :: "'f mdx_props \<Rightarrow> (string \<rightharpoonup> 'f transformer)" where
  "merged_table props = the (components_prop (CustomMDX props))"

section \<open>The project list\<close>

text \<open>
  \<^verbatim>\<open>new Date(s).getTime()\<close> is a parameter \<open>getTime\<close>: the time value of the date string,
  or \<open>None\<close> for \<^verbatim>\<open>NaN\<close> (an invalid date). \<^verbatim>\<open>Array.prototype.sort\<close> is the stable sort of
  the language standard, here by insertion; a comparator result \<^verbatim>\<open>NaN\<close> counts as \<open>0\<close>.
\<close>

record metadata =
  title :: string
  publishedAt :: string
  summary :: string

record post =
  slug :: string
  metadata :: metadata
  content :: string

definition compare_posts :: "(string \<Rightarrow> int option) \<Rightarrow> post \<Rightarrow> post \<Rightarrow> int option" where
  "compare_posts getTime a b =
     (case (getTime (publishedAt (metadata b)), getTime (publishedAt (metadata a))) of
        (Some tb, Some ta) \<Rightarrow> Some (tb - ta)
      | _ \<Rightarrow> None)"

definition comes_after :: "('a \<Rightarrow> 'a \<Rightarrow> int option) \<Rightarrow> 'a \<Rightarrow> 'a \<Rightarrow> bool" where
  "comes_after cmp a b = (case cmp a b of None \<Rightarrow> False | Some v \<Rightarrow> v > 0)"

fun insert_by :: "('a \<Rightarrow> 'a \<Rightarrow> int option) \<Rightarrow> 'a \<Rightarrow> 'a list \<Rightarrow> 'a list" where
  "insert_by cmp x [] = [x]"
| "insert_by cmp x (y # ys) =
     (if comes_after cmp x y then y # insert_by cmp x ys else x # y # ys)"

definition sort_by :: "('a \<Rightarrow> 'a \<Rightarrow> int option) \<Rightarrow> 'a list \<Rightarrow> 'a list" where
  "sort_by cmp xs = foldr (insert_by cmp) xs []"

definition sortedProjects :: "(string \<Rightarrow> int option) \<Rightarrow> post list \<Rightarrow> post list" where
  "sortedProjects getTime allProjects = sort_by (compare_posts getTime) allProjects"

definition time_of :: "(string \<Rightarrow> int option) \<Rightarrow> post \<Rightarrow> int option" where
  "time_of getTime p = getTime (publishedAt (metadata p))"

definition published_after :: "(string \<Rightarrow> int option) \<Rightarrow> post \<Rightarrow> post \<Rightarrow> bool" where
  "published_after getTime a b =
     (case (time_of getTime a, time_of getTime b) of
        (Some ta, Some tb) \<Rightarrow> ta > tb
      | _ \<Rightarrow> False)"

text \<open>
  Three project records with the dates of the repository's project pages, and the time
  values \<^verbatim>\<open>Date\<close> gives these dates (midnight UTC, in milliseconds).
\<close>

definition project :: "string \<Rightarrow> string \<Rightarrow> post" where
  "project s d =
     \<lparr>slug = s, metadata = \<lparr>title = s, publishedAt = d, summary = []\<rparr>, content = []\<rparr>"

definition utc_ms :: "string \<Rightarrow> int option" where
  "utc_ms d = map_of
     [(''2024-02-08'', 1707350400000), (''2025-01-01'', 1735689600000), (''2025-03-05'', 1741132800000)] d"

section \<open>The auth endpoint\<close>

text \<open>
  \<^verbatim>\<open>cookie.parse\<close> belongs to the \<^verbatim>\<open>cookie\<close> package and is a parameter \<open>parse\<close>: from
  the header text to the cookies it holds. \<^verbatim>\<open>request.headers.get("cookie")\<close> is \<open>None\<close>
  when the request has no cookie header.
\<close>

record response =
  authenticated :: bool
  status :: nat

definition cookie_header :: "string option \<Rightarrow> string" where
  \<comment> \<open>\<^verbatim>\<open>request.headers.get("cookie") || ""\<close>\<close>
  "cookie_header header = (case header of None \<Rightarrow> [] | Some h \<Rightarrow> h)"

definition GET :: "(string \<Rightarrow> (string \<rightharpoonup> string)) \<Rightarrow> string option \<Rightarrow> response" where
  "GET parse header =
     (let cookieHeader = cookie_header header;
          cookies = parse cookieHeader
      in if cookies ''authToken'' = Some ''authenticated''
         then \<lparr>authenticated = True, status = 200\<rparr>
         else \<lparr>authenticated = False, status = 401\<rparr>)"

section \<open>Properties of the slug deriver\<close>


lemma code_less_256: "code c < 256"
  by (simp add: code_def)

lemma code_hyphen: "code CHR ''-'' = 45"
  by (simp add: code_def)

lemma code_amp: "code CHR ''&'' = 38"
  by (simp add: code_def)

lemma code_eq_iff: "code c = code d \<longleftrightarrow> c = d"
  by (simp add: code_def)

lemma hyphen_iff: "c = CHR ''-'' \<longleftrightarrow> code c = 45"
  using code_eq_iff [of c "CHR ''-''"] by (simp add: code_hyphen)

lemma amp_iff: "c = CHR ''&'' \<longleftrightarrow> code c = 38"
  using code_eq_iff [of c "CHR ''&''"] by (simp add: code_amp)

lemma code_char_of: "n < 256 \<Longrightarrow> code (char_of n) = n"
  by (simp add: code_def)

lemma lower_char_not_upper: "\<not> is_upper (lower_char c)"
  using code_less_256 [of c]
  by (auto simp: lower_char_def is_upper_def Let_def code_char_of)

lemma slug_char_lower: "slug_char c \<Longrightarrow> lower_char c = c"
  by (auto simp: slug_char_def lower_char_def Let_def)

lemma slug_char_not_space: "slug_char c \<Longrightarrow> \<not> is_space c"
  by (auto simp: slug_char_def is_space_def Let_def)

lemma slug_char_not_amp: "slug_char c \<Longrightarrow> c \<noteq> CHR ''&''"
  by (auto simp: slug_char_def amp_iff Let_def)

lemma slug_char_keep: "slug_char c \<Longrightarrow> is_word c \<or> c = CHR ''-''"
  by (auto simp: slug_char_def is_word_def hyphen_iff Let_def)

lemma kept_not_upper_slug:
  "is_word c \<or> c = CHR ''-'' \<Longrightarrow> \<not> is_upper c \<Longrightarrow> slug_char c"
  by (auto simp: slug_char_def is_word_def hyphen_iff is_upper_def Let_def)

lemma not_upper_and: "list_all (\<lambda>c. \<not> is_upper c) ''-and-''"
  by (simp add: is_upper_def code_def)

lemma toLowerCase_not_upper: "list_all (\<lambda>c. \<not> is_upper c) (toLowerCase s)"
  by (simp add: toLowerCase_def list_all_iff lower_char_not_upper)

lemma set_replace_spaces: "set (replace_spaces s) \<subseteq> insert CHR ''-'' (set s)"
proof (induction s rule: replace_spaces.induct)
  case 1
  then show ?case by simp
next
  case (2 c cs)
  show ?case
  proof (cases "is_space c")
    case True
    with 2 have "set (replace_spaces (dropWhile is_space cs)) \<subseteq> insert CHR ''-'' (set (dropWhile is_space cs))"
      by simp
    moreover have "set (dropWhile is_space cs) \<subseteq> set cs"
      by (auto dest: set_dropWhileD)
    ultimately show ?thesis using True by auto
  next
    case False
    with 2 show ?thesis by auto
  qed
qed

lemma set_replace_amp: "set (replace_amp s) \<subseteq> set ''-and-'' \<union> set s"
  by (induction s) auto

lemma set_collapse_hyphens: "set (collapse_hyphens s) \<subseteq> set s"
proof (induction s rule: collapse_hyphens.induct)
  case 1
  then show ?case by simp
next
  case (2 c cs)
  show ?case
  proof (cases "c = CHR ''-''")
    case True
    with 2 have "set (collapse_hyphens (dropWhile (\<lambda>d. d = CHR ''-'') cs)) \<subseteq> set (dropWhile (\<lambda>d. d = CHR ''-'') cs)"
      by simp
    moreover have "set (dropWhile (\<lambda>d. d = CHR ''-'') cs) \<subseteq> set cs"
      by (auto dest: set_dropWhileD)
    ultimately show ?thesis using True by auto
  next
    case False
    with 2 show ?thesis by auto
  qed
qed

lemma normalize_text_chars: "list_all slug_char (normalize_text s)"
proof -
  let ?a = "toLowerCase s"
  let ?b = "replace_spaces ?a"
  let ?c = "replace_amp ?b"
  let ?d = "remove_non_word ?c"
  have a: "\<forall>c\<in>set ?a. \<not> is_upper c"
    using toLowerCase_not_upper [of s] by (simp add: list_all_iff)
  have h: "\<not> is_upper CHR ''-''"
    by (simp add: is_upper_def code_def)
  have b: "\<forall>c\<in>set ?b. \<not> is_upper c"
    using a h set_replace_spaces [of ?a] by auto
  have c: "\<forall>c\<in>set ?c. \<not> is_upper c"
    using b not_upper_and set_replace_amp [of ?b] by (auto simp: list_all_iff)
  have d: "\<forall>c\<in>set ?d. slug_char c"
    using c by (auto simp: remove_non_word_def intro: kept_not_upper_slug)
  then have "\<forall>c\<in>set (collapse_hyphens ?d). slug_char c"
    using set_collapse_hyphens [of ?d] by auto
  then show ?thesis
    by (simp add: normalize_text_def list_all_iff)
qed

lemma collapse_hyphens_Nil_iff: "collapse_hyphens s = [] \<longleftrightarrow> s = []"
  by (cases s) auto

lemma hd_collapse_hyphens: "hd (collapse_hyphens s) = hd s"
  by (cases s) auto

lemma no_double_hyphen_Cons:
  "no_double_hyphen (c # s) \<longleftrightarrow> (s = [] \<or> \<not> (c = CHR ''-'' \<and> hd s = CHR ''-'')) \<and> no_double_hyphen s"
  by (cases s) auto

lemma no_double_collapse: "no_double_hyphen (collapse_hyphens s)"
proof (induction s rule: collapse_hyphens.induct)
  case 1
  then show ?case by simp
next
  case (2 c cs)
  show ?case
  proof (cases "c = CHR ''-''")
    case True
    let ?r = "dropWhile (\<lambda>d. d = CHR ''-'') cs"
    from 2 True have ih: "no_double_hyphen (collapse_hyphens ?r)" by simp
    have "?r = [] \<or> hd ?r \<noteq> CHR ''-''"
      using hd_dropWhile [of "\<lambda>d. d = CHR ''-''" cs] by blast
    then have "collapse_hyphens ?r = [] \<or> hd (collapse_hyphens ?r) \<noteq> CHR ''-''"
      by (simp add: collapse_hyphens_Nil_iff hd_collapse_hyphens)
    with ih True show ?thesis
      by (simp add: no_double_hyphen_Cons)
  next
    case False
    with 2 show ?thesis
      by (simp add: no_double_hyphen_Cons)
  qed
qed

lemma collapse_hyphens_id: "no_double_hyphen s \<Longrightarrow> collapse_hyphens s = s"
proof (induction s rule: collapse_hyphens.induct)
  case 1
  then show ?case by simp
next
  case (2 c cs)
  show ?case
  proof (cases "c = CHR ''-''")
    case True
    with "2.prems" have nd: "cs = [] \<or> hd cs \<noteq> CHR ''-''" and tl: "no_double_hyphen cs"
      by (auto simp: no_double_hyphen_Cons)
    from nd have dw: "dropWhile (\<lambda>d. d = CHR ''-'') cs = cs"
      by (cases cs) auto
    with 2 True tl show ?thesis by simp
  next
    case False
    with 2 show ?thesis by (simp add: no_double_hyphen_Cons)
  qed
qed

lemma toLowerCase_id: "list_all slug_char s \<Longrightarrow> toLowerCase s = s"
  by (induction s) (auto simp: toLowerCase_def slug_char_lower)

lemma replace_spaces_id: "list_all slug_char s \<Longrightarrow> replace_spaces s = s"
  by (induction s) (auto simp: slug_char_not_space)

lemma replace_amp_id: "list_all slug_char s \<Longrightarrow> replace_amp s = s"
  by (induction s) (auto simp: slug_char_not_amp)

lemma remove_non_word_id: "list_all slug_char s \<Longrightarrow> remove_non_word s = s"
  by (induction s) (auto simp: remove_non_word_def dest: slug_char_keep)

lemma normalize_text_is_slug: "is_slug (normalize_text s)"
  using normalize_text_chars [of s] no_double_collapse
  by (simp add: is_slug_def normalize_text_def)

lemma normalize_text_fixed: "is_slug s \<Longrightarrow> normalize_text s = s"
  by (simp add: is_slug_def normalize_text_def toLowerCase_id replace_spaces_id
      replace_amp_id remove_non_word_id collapse_hyphens_id)

subsection \<open>White space\<close>

lemma replace_spaces_all_space:
  assumes "s \<noteq> []" and "list_all is_space s"
  shows "replace_spaces s = ''-''"
proof (cases s)
  case Nil
  with assms show ?thesis by simp
next
  case (Cons c cs)
  with assms have "is_space c" and "dropWhile is_space cs = []"
    by (auto simp: list_all_iff dropWhile_eq_Nil_conv)
  with Cons show ?thesis by (simp del: dropWhile_eq_Nil_conv)
qed

lemma lower_char_space: "is_space c \<Longrightarrow> lower_char c = c"
  by (auto simp: is_space_def lower_char_def Let_def)

lemma toLowerCase_all_space: "list_all is_space s \<Longrightarrow> toLowerCase s = s"
  by (induction s) (auto simp: toLowerCase_def lower_char_space)

lemma normalize_text_Nil: "normalize_text [] = []"
  by (simp add: normalize_text_def toLowerCase_def remove_non_word_def)

lemma after_spaces_hyphen:
  "collapse_hyphens (remove_non_word (replace_amp ''-'')) = ''-''"
  by (simp add: remove_non_word_def)

lemma normalize_text_all_space:
  assumes "s \<noteq> []" and "list_all is_space s"
  shows "normalize_text s = ''-''"
proof -
  have "replace_spaces (toLowerCase s) = ''-''"
    using assms by (simp add: toLowerCase_all_space replace_spaces_all_space)
  then show ?thesis
    unfolding normalize_text_def by (simp only: after_spaces_hyphen)
qed

text \<open>
  Claim C1, as stated, fails: nothing trims the text, so the white space around
  \<^verbatim>\<open>"  Multiple   Spaces  "\<close> does not yield \<^verbatim>\<open>"multiple-spaces"\<close>, and a heading of one
  space does not yield the empty string.
\<close>

theorem slugify_spaces_counterexample:
  "slugify (Str ''  Multiple   Spaces  '') \<noteq> ''multiple-spaces'' \<and> slugify (Str '' '') \<noteq> []"
  by code_simp

lemma slugify_multiple_spaces:
  "slugify (Str ''  Multiple   Spaces  '') = ''-multiple-spaces-''"
  by code_simp

text \<open>
  Claim C1, amended: a leading or trailing run of white space survives as one hyphen, so
  \<^verbatim>\<open>slugify("  Multiple   Spaces  ")\<close> is \<^verbatim>\<open>"-multiple-spaces-"\<close>; content whose text is
  empty yields the empty string; content whose text is not empty and is white space only
  yields \<^verbatim>\<open>"-"\<close>.
\<close>

theorem slugify_whitespace:
  "slugify (Str ''  Multiple   Spaces  '') = ''-multiple-spaces-'' \<and>
   (to_text n = [] \<longrightarrow> slugify n = []) \<and>
   (to_text n \<noteq> [] \<and> list_all is_space (to_text n) \<longrightarrow> slugify n = ''-'')"
proof -
  have "to_text n = [] \<longrightarrow> slugify n = []"
    by (simp add: slugify_def normalize_text_Nil)
  moreover have "to_text n \<noteq> [] \<and> list_all is_space (to_text n) \<longrightarrow> slugify n = ''-''"
    by (simp add: slugify_def normalize_text_all_space)
  ultimately show ?thesis
    using slugify_multiple_spaces by blast
qed

theorem slugify_whitespace_witness:
  "to_text (Str []) = [] \<and> slugify (Str []) = [] \<and>
   to_text (Str [CHR 0x20, CHR 0x09]) \<noteq> [] \<and> list_all is_space (to_text (Str [CHR 0x20, CHR 0x09])) \<and>
   slugify (Str [CHR 0x20, CHR 0x09]) = ''-''"
  using slugify_whitespace [of "Str []"] slugify_whitespace [of "Str [CHR 0x20, CHR 0x09]"]
  by (simp add: to_text_def is_space_def code_def)

subsection \<open>Nested markup and idempotence\<close>

text \<open>
  Claim C2: the slug of a markup node whose only child is a markup node with the string
  child \<open>s\<close> should be the slug of \<open>s\<close>. \<^verbatim>\<open>extractTextFromElement\<close> descends into
  element children only when \<^verbatim>\<open>props.children\<close> is an array: a single element child is
  neither a string nor an array, and the text below it is lost. The flattening the
  specification describes keeps it.
\<close>

theorem nested_element_text_lost:
  "slugify (Elem (Element (Elem (Element (Str s))))) = [] \<and>
   flatten_spec (Elem (Element (Elem (Element (Str s))))) = s \<and>
   slugify (Str ''Hello'') = ''hello'' \<and>
   slugify (Elem (Element (Elem (Element (Str ''Hello''))))) \<noteq> slugify (Str ''Hello'')"
proof -
  have a: "slugify (Elem (Element (Elem (Element (Str s))))) = []" for s
    by (simp add: slugify_def to_text_def normalize_text_Nil)
  have b: "slugify (Str ''Hello'') = ''hello''"
    by code_simp
  show ?thesis
    by (simp add: a b)
qed

text \<open>
  Claim C3: slug derivation is idempotent, \<^verbatim>\<open>slugify(slugify(x)) == slugify(x)\<close> for every
  string \<open>x\<close>.
\<close>

theorem slugify_idempotent: "slugify (Str (slugify (Str x))) = slugify (Str x)"
  by (simp add: slugify_def to_text_def normalize_text_fixed normalize_text_is_slug)

section \<open>Properties of the auth endpoint\<close>

text \<open>
  Claim C4: the endpoint answers 200 with \<^verbatim>\<open>authenticated: true\<close> exactly when the cookies
  of the request hold \<^verbatim>\<open>authToken\<close> with the value \<^verbatim>\<open>authenticated\<close>; in every other case
  it answers 401 with \<^verbatim>\<open>authenticated: false\<close>; there is no third answer.
\<close>

theorem GET_authenticated_iff:
  "(GET parse header = \<lparr>authenticated = True, status = 200\<rparr>
      \<longleftrightarrow> parse (cookie_header header) ''authToken'' = Some ''authenticated'') \<and>
   (parse (cookie_header header) ''authToken'' \<noteq> Some ''authenticated''
      \<longrightarrow> GET parse header = \<lparr>authenticated = False, status = 401\<rparr>) \<and>
   (GET parse header = \<lparr>authenticated = True, status = 200\<rparr> \<or>
    GET parse header = \<lparr>authenticated = False, status = 401\<rparr>)"
  by (simp add: GET_def cookie_header_def Let_def)

theorem GET_authenticated_iff_witness:
  "GET (\<lambda>h. if h = ''authToken=authenticated'' then [''authToken'' \<mapsto> ''authenticated''] else Map.empty)
     (Some ''authToken=authenticated'') = \<lparr>authenticated = True, status = 200\<rparr> \<and>
   (\<lambda>h. if h = ''authToken=authenticated'' then [''authToken'' \<mapsto> ''authenticated''] else Map.empty)
     (cookie_header None) ''authToken'' \<noteq> Some ''authenticated'' \<and>
   GET (\<lambda>h. if h = ''authToken=authenticated'' then [''authToken'' \<mapsto> ''authenticated''] else Map.empty)
     None = \<lparr>authenticated = False, status = 401\<rparr>"
  using GET_authenticated_iff [of "\<lambda>h. if h = ''authToken=authenticated'' then [''authToken'' \<mapsto> ''authenticated''] else Map.empty" "Some ''authToken=authenticated''"]
    GET_authenticated_iff [of "\<lambda>h. if h = ''authToken=authenticated'' then [''authToken'' \<mapsto> ''authenticated''] else Map.empty" None]
  by (simp add: cookie_header_def)

section \<open>Properties of the node transformers and the merged table\<close>

text \<open>
  Claim C5, as stated, fails: the other props are spread after \<^verbatim>\<open>target\<close> and \<^verbatim>\<open>rel\<close>,
  so a \<^verbatim>\<open>target\<close> among them replaces \<^verbatim>\<open>"_blank"\<close> on an external link.
\<close>

theorem CustomLink_target_counterexample:
  "attrs (CustomLink ''https://example.com'' () [''target'' \<mapsto> VStr ''_self'']) ''target''
     \<noteq> Some (VStr ''_blank'')"
  by (simp add: CustomLink_def without_def restrict_map_def map_add_def)

text \<open>
  Claim C5, amended: every \<^verbatim>\<open>href\<close> falls into exactly one of three cases. Beginning
  with \<^verbatim>\<open>/\<close>, it renders the internal link component with \<^verbatim>\<open>href\<close> and the other props.
  Otherwise, beginning with \<^verbatim>\<open>#\<close>, it renders a plain anchor with \<^verbatim>\<open>href\<close> and the other
  props, adding no \<^verbatim>\<open>target\<close> of its own. Otherwise it renders an anchor whose \<^verbatim>\<open>target\<close>
  is \<^verbatim>\<open>"_blank"\<close> and whose \<^verbatim>\<open>rel\<close> is \<^verbatim>\<open>"noopener noreferrer"\<close>, each unless the other
  props carry that attribute, which then wins.
\<close>

theorem CustomLink_cases:
  "(prefix ''/'' href \<longrightarrow>
      CustomLink href c other =
        Rendered SmartLink ([''href'' \<mapsto> VStr href] ++ without other {''href'', ''children''}) (Some c)) \<and>
   (\<not> prefix ''/'' href \<and> prefix ''#'' href \<longrightarrow>
      CustomLink href c other =
        Rendered (Tag ''a'') ([''href'' \<mapsto> VStr href] ++ without other {''href'', ''children''}) (Some c) \<and>
      attrs (CustomLink href c other) ''target'' = other ''target'') \<and>
   (\<not> prefix ''/'' href \<and> \<not> prefix ''#'' href \<longrightarrow>
      component (CustomLink href c other) = Tag ''a'' \<and>
      kids (CustomLink href c other) = Some c \<and>
      attrs (CustomLink href c other) ''href'' = Some (VStr href) \<and>
      attrs (CustomLink href c other) ''target'' = spread_over (VStr ''_blank'') (other ''target'') \<and>
      attrs (CustomLink href c other) ''rel'' = spread_over (VStr ''noopener noreferrer'') (other ''rel''))"
  by (auto simp: CustomLink_def without_def restrict_map_def map_add_def spread_over_def
      split: option.splits)

theorem CustomLink_cases_witness:
  "prefix ''/'' ''/about'' \<and>
   CustomLink ''/about'' () Map.empty = Rendered SmartLink [''href'' \<mapsto> VStr ''/about''] (Some ()) \<and>
   \<not> prefix ''/'' ''#top'' \<and> prefix ''#'' ''#top'' \<and>
   CustomLink ''#top'' () Map.empty = Rendered (Tag ''a'') [''href'' \<mapsto> VStr ''#top''] (Some ()) \<and>
   \<not> prefix ''/'' ''https://example.com'' \<and> \<not> prefix ''#'' ''https://example.com'' \<and>
   attrs (CustomLink ''https://example.com'' () Map.empty) ''target'' = Some (VStr ''_blank'') \<and>
   attrs (CustomLink ''https://example.com'' () Map.empty) ''rel'' = Some (VStr ''noopener noreferrer'')"
  using CustomLink_cases [of "''/about''" "()" Map.empty]
    CustomLink_cases [of "''#top''" "()" Map.empty]
    CustomLink_cases [of "''https://example.com''" "()" Map.empty]
  by (simp add: without_def spread_over_def)

text \<open>
  Claim C6: with an absent or empty \<^verbatim>\<open>src\<close>, \<^verbatim>\<open>createImage\<close> logs the error and returns
  \<^verbatim>\<open>null\<close>; it has no failing branch. The node it returns for any image does not depend
  on what was logged before, so a sibling renders the same after such a node.
\<close>

theorem createImage_without_src:
  "(src = None \<or> src = Some [] \<longrightarrow>
      createImage alt src other log =
        (None :: 'c rendered option, log @ [''SmartImage requires a valid 'src' property.''])) \<and>
   fst (createImage alt' src' other' log :: 'c rendered option \<times> console) =
   fst (createImage alt' src' other' log' :: 'c rendered option \<times> console)"
  by (auto simp: createImage_def falsy_def Let_def)

theorem createImage_without_src_witness:
  "createImage (Some ''logo'') None Map.empty [] =
     (None :: unit rendered option, [''SmartImage requires a valid 'src' property.'']) \<and>
   createImage None (Some []) Map.empty [''earlier''] =
     (None :: unit rendered option, [''earlier'', ''SmartImage requires a valid 'src' property.''])"
  using createImage_without_src [of None "Some ''logo''" Map.empty "[]" None None Map.empty "[]", where ?'c = unit]
    createImage_without_src [of "Some []" None Map.empty "[''earlier'']" None None Map.empty "[]", where ?'c = unit]
  by simp

lemma upper_p: "toUpperCase ''p'' = ''P''"
  by code_simp

text \<open>
  Claim C7: a code element of class \<^verbatim>\<open>language-python\<close> renders a code block with the
  language \<^verbatim>\<open>python\<close>, the label \<^verbatim>\<open>Python\<close> and the copy button; without a class (or
  without a code element) the \<^verbatim>\<open>pre\<close> is rendered as it came.
\<close>

theorem createCodeBlock_python:
  "createCodeBlock (CodeElement (Some ''language-python'') c) other =
     CodeBlock ''8'' ''16'' [\<lparr>code_of = c, language = ''python'', label = ''Python''\<rparr>] True \<and>
   createCodeBlock (CodeElement None c) other = Pre (CodeElement None c) other \<and>
   createCodeBlock (RawText t) other = Pre (RawText t) other \<and>
   createCodeBlock Absent other = Pre Absent other"
  by (simp add: upper_p)

text \<open>
  Claim C8: the table handed to the renderer maps a kind of the override map to the
  override entry, and every other kind to the default entry.
\<close>

theorem merged_table_override:
  "(components_prop props = Some ov \<and> k \<in> dom ov \<longrightarrow> merged_table props k = ov k) \<and>
   (components_prop props = Some ov \<and> k \<notin> dom ov \<longrightarrow> merged_table props k = components k) \<and>
   (components_prop props = None \<longrightarrow> merged_table props k = components k)"
  by (auto simp: merged_table_def CustomMDX_def map_add_def split: option.splits)

theorem merged_table_override_witness:
  "components_prop \<lparr>source = ''# Hi'', components_prop = Some [''a'' \<mapsto> Supplied ()]\<rparr> = Some [''a'' \<mapsto> Supplied ()] \<and>
   ''a'' \<in> dom [''a'' \<mapsto> Supplied ()] \<and>
   merged_table \<lparr>source = ''# Hi'', components_prop = Some [''a'' \<mapsto> Supplied ()]\<rparr> ''a'' = Some (Supplied ()) \<and>
   ''p'' \<notin> dom [''a'' \<mapsto> Supplied ()] \<and>
   merged_table \<lparr>source = ''# Hi'', components_prop = Some [''a'' \<mapsto> Supplied ()]\<rparr> ''p'' = Some createParagraph \<and>
   components_prop \<lparr>source = ''# Hi'', components_prop = (None :: (string \<rightharpoonup> unit transformer) option)\<rparr> = None \<and>
   merged_table \<lparr>source = ''# Hi'', components_prop = (None :: (string \<rightharpoonup> unit transformer) option)\<rparr> ''a'' = Some Link"
  using merged_table_override [of "\<lparr>source = ''# Hi'', components_prop = Some [''a'' \<mapsto> Supplied ()]\<rparr>" "[''a'' \<mapsto> Supplied ()]" "''a''"]
    merged_table_override [of "\<lparr>source = ''# Hi'', components_prop = Some [''a'' \<mapsto> Supplied ()]\<rparr>" "[''a'' \<mapsto> Supplied ()]" "''p''"]
    merged_table_override [of "\<lparr>source = ''# Hi'', components_prop = (None :: (string \<rightharpoonup> unit transformer) option)\<rparr>" _ "''a''"]
  by (simp add: components_def)

section \<open>Properties of the project list\<close>

lemma mset_insert_by: "mset (insert_by cmp x ys) = add_mset x (mset ys)"
  by (induction ys) auto

lemma sort_by_Cons: "sort_by cmp (x # xs) = insert_by cmp x (sort_by cmp xs)"
  by (simp add: sort_by_def)

lemma mset_sort_by: "mset (sort_by cmp xs) = mset xs"
  by (induction xs) (auto simp: sort_by_Cons mset_insert_by sort_by_def)

lemma set_sort_by: "set (sort_by cmp xs) = set xs"
  using mset_sort_by [of cmp xs] by (metis set_mset_mset)

lemma comes_after_compare_posts:
  assumes "time_of getTime x = Some tx" and "time_of getTime y = Some ty"
  shows "comes_after (compare_posts getTime) x y \<longleftrightarrow> ty > tx"
  using assms by (simp add: comes_after_def compare_posts_def time_of_def)

lemma published_after_times:
  assumes "time_of getTime x = Some tx" and "time_of getTime y = Some ty"
  shows "published_after getTime x y \<longleftrightarrow> tx > ty"
  using assms by (simp add: published_after_def)

lemma published_after_trans:
  "published_after getTime a b \<Longrightarrow> published_after getTime b c \<Longrightarrow> published_after getTime a c"
  by (auto simp: published_after_def split: option.splits)

lemma sorted_insert_by:
  assumes "time_of getTime x \<noteq> None"
    and "\<forall>y\<in>set ys. time_of getTime y \<noteq> None"
    and "time_of getTime x \<notin> time_of getTime ` set ys"
    and "sorted_wrt (published_after getTime) ys"
  shows "sorted_wrt (published_after getTime) (insert_by (compare_posts getTime) x ys)"
  using assms
proof (induction ys)
  case Nil
  then show ?case by simp
next
  case (Cons y ys)
  from Cons.prems obtain tx ty where tx: "time_of getTime x = Some tx"
    and ty: "time_of getTime y = Some ty" and ne: "tx \<noteq> ty"
    by auto
  show ?case
  proof (cases "comes_after (compare_posts getTime) x y")
    case True
    then have yx: "published_after getTime y x"
      using tx ty by (simp add: comes_after_compare_posts published_after_times)
    have ih: "sorted_wrt (published_after getTime) (insert_by (compare_posts getTime) x ys)"
      using Cons by simp
    have "\<forall>z\<in>set (insert_by (compare_posts getTime) x ys). published_after getTime y z"
    proof
      fix z assume "z \<in> set (insert_by (compare_posts getTime) x ys)"
      then have "z \<in># mset (insert_by (compare_posts getTime) x ys)" by simp
      then have "z = x \<or> z \<in> set ys" by (simp add: mset_insert_by)
      with yx Cons.prems(4) show "published_after getTime y z" by auto
    qed
    with ih True show ?thesis by simp
  next
    case False
    then have xy: "published_after getTime x y"
      using tx ty ne by (simp add: comes_after_compare_posts published_after_times)
    have "\<forall>z\<in>set ys. published_after getTime x z"
      using xy Cons.prems(4) by (auto intro: published_after_trans)
    with xy False Cons.prems(4) show ?thesis by simp
  qed
qed

text \<open>
  Claim C9: when every \<^verbatim>\<open>publishedAt\<close> is a valid date and the dates are pairwise
  distinct, the sorted project list is a permutation of the collection in strictly
  descending order of \<^verbatim>\<open>publishedAt\<close> (for every length, so also for two or more).
\<close>

theorem sortedProjects_descending:
  assumes "\<forall>p\<in>set allProjects. time_of getTime p \<noteq> None"
    and "distinct (map (time_of getTime) allProjects)"
  shows "mset (sortedProjects getTime allProjects) = mset allProjects \<and>
         sorted_wrt (published_after getTime) (sortedProjects getTime allProjects)"
proof -
  have "sorted_wrt (published_after getTime) (sort_by (compare_posts getTime) allProjects)"
    using assms
  proof (induction allProjects)
    case Nil
    then show ?case by (simp add: sort_by_def)
  next
    case (Cons p ps)
    have "sorted_wrt (published_after getTime)
            (insert_by (compare_posts getTime) p (sort_by (compare_posts getTime) ps))"
    proof (rule sorted_insert_by)
      show "time_of getTime p \<noteq> None" using Cons.prems by simp
      show "\<forall>y\<in>set (sort_by (compare_posts getTime) ps). time_of getTime y \<noteq> None"
        using Cons.prems by (simp add: set_sort_by)
      show "time_of getTime p \<notin> time_of getTime ` set (sort_by (compare_posts getTime) ps)"
        using Cons.prems by (simp add: set_sort_by)
      show "sorted_wrt (published_after getTime) (sort_by (compare_posts getTime) ps)"
        using Cons by simp
    qed
    then show ?case by (simp add: sort_by_Cons)
  qed
  then show ?thesis
    by (simp add: sortedProjects_def mset_sort_by)
qed

theorem sortedProjects_descending_witness:
  "list_all (\<lambda>p. time_of utc_ms p \<noteq> None)
     [project ''omninum'' ''2024-02-08'', project ''piz'' ''2025-03-05'',
      project ''sorting-visualizer'' ''2025-01-01''] \<and>
   distinct (map (time_of utc_ms)
     [project ''omninum'' ''2024-02-08'', project ''piz'' ''2025-03-05'',
      project ''sorting-visualizer'' ''2025-01-01'']) \<and>
   sortedProjects utc_ms
     [project ''omninum'' ''2024-02-08'', project ''piz'' ''2025-03-05'',
      project ''sorting-visualizer'' ''2025-01-01'']
     = [project ''piz'' ''2025-03-05'', project ''sorting-visualizer'' ''2025-01-01'',
        project ''omninum'' ''2024-02-08''] \<and>
   sorted_wrt (published_after utc_ms)
     [project ''piz'' ''2025-03-05'', project ''sorting-visualizer'' ''2025-01-01'',
      project ''omninum'' ''2024-02-08'']"
proof -
  let ?ps = "[project ''omninum'' ''2024-02-08'', project ''piz'' ''2025-03-05'',
              project ''sorting-visualizer'' ''2025-01-01'']"
  have a: "\<forall>p\<in>set ?ps. time_of utc_ms p \<noteq> None"
    by (simp add: time_of_def utc_ms_def project_def)
  have b: "distinct (map (time_of utc_ms) ?ps)"
    by (simp add: time_of_def utc_ms_def project_def)
  have c: "sortedProjects utc_ms ?ps =
      [project ''piz'' ''2025-03-05'', project ''sorting-visualizer'' ''2025-01-01'',
       project ''omninum'' ''2024-02-08'']"
    by (simp add: sortedProjects_def sort_by_def comes_after_def compare_posts_def
        utc_ms_def project_def)
  from sortedProjects_descending [OF a b] have
    "sorted_wrt (published_after utc_ms) (sortedProjects utc_ms ?ps)"
    by simp
  then show ?thesis
    using a b c by simp
qed



section \<open>Content that is neither string, element nor array\<close>

text \<open>
  Claim C10, as stated, fails: an input that is neither a string, an element nor an array
  may be an object that \<^verbatim>\<open>String\<close> cannot convert, such as \<^verbatim>\<open>Object.create(null)\<close>, and
  \<^verbatim>\<open>slugify\<close> then throws the \<^verbatim>\<open>TypeError\<close> of \<^verbatim>\<open>String(str)\<close>.
\<close>

theorem slugify_object_counterexample:
  "slugify_value (Object (Throws TypeError)) = Inl TypeError"
  by simp

lemma slugify_primitive_examples:
  "slugify (Prim Null) = ''null'' \<and> slugify (Prim Undefined) = ''undefined'' \<and>
   slugify (Prim (Number (Finite False 42 2))) = ''42'' \<and>
   slugify (Prim (Number (Finite False 15 1))) = ''15'' \<and>
   slugify (Prim (Number (Finite False 1 22))) = ''1e21'' \<and>
   slugify (Prim (Number NaN)) = ''nan''"
  by code_simp

lemma String_object_not_symbol: "\<not> is_symbol p \<Longrightarrow> String_object (Returns p) = Inr (String_prim p)"
  by (cases p) simp_all

text \<open>
  Claim C10, amended: on a number, bigint, boolean, \<^verbatim>\<open>null\<close>, \<^verbatim>\<open>undefined\<close> or symbol,
  \<^verbatim>\<open>slugify\<close> returns the normalized slug of the string form of the value and does not
  throw: \<^verbatim>\<open>"null"\<close>, \<^verbatim>\<open>"undefined"\<close>, \<^verbatim>\<open>"42"\<close>, \<^verbatim>\<open>"15"\<close> for \<^verbatim>\<open>1.5\<close>, \<^verbatim>\<open>"1e21"\<close> for
  \<^verbatim>\<open>1e21\<close>, \<^verbatim>\<open>"nan"\<close> for \<^verbatim>\<open>NaN\<close>. On any other object it returns the normalized slug
  of the object's string form when the object converts to a string or to a primitive
  other than a symbol, and throws what \<^verbatim>\<open>String(str)\<close> throws otherwise.
\<close>

theorem slugify_other_values:
  "slugify_value (Node (Prim v)) = Inr (normalize_text (String_prim v)) \<and>
   is_slug (slugify (Prim v)) \<and>
   slugify (Prim Null) = ''null'' \<and> slugify (Prim Undefined) = ''undefined'' \<and>
   slugify (Prim (Number (Finite False 42 2))) = ''42'' \<and>
   slugify (Prim (Number (Finite False 15 1))) = ''15'' \<and>
   slugify (Prim (Number (Finite False 1 22))) = ''1e21'' \<and>
   slugify (Prim (Number NaN)) = ''nan'' \<and>
   slugify_value (Object (Returns_string s)) = Inr (normalize_text s) \<and>
   (\<not> is_symbol p \<longrightarrow>
      slugify_value (Object (Returns p)) = Inr (normalize_text (String_prim p))) \<and>
   slugify_value (Object (Returns (Symbol d))) = Inl TypeError \<and>
   slugify_value (Object (Throws e)) = Inl e"
proof -
  have a: "slugify_value (Node (Prim v)) = Inr (normalize_text (String_prim v))"
    by (simp add: slugify_def to_text_def)
  have b: "is_slug (slugify (Prim v))"
    by (simp add: slugify_def normalize_text_is_slug)
  have c: "\<not> is_symbol p \<longrightarrow>
      slugify_value (Object (Returns p)) = Inr (normalize_text (String_prim p))"
    by (simp add: String_object_not_symbol)
  show ?thesis
    using a b c slugify_primitive_examples by simp
qed

theorem slugify_other_values_witness:
  "\<not> is_symbol (Boolean True) \<and>
   slugify_value (Object (Returns (Boolean True))) = Inr ''true'' \<and>
   slugify_value (Object (Returns_string ''[object Object]'')) = Inr ''object-object''"
proof -
  have n: "normalize_text ''true'' = ''true''" "normalize_text ''[object Object]'' = ''object-object''"
    by code_simp+
  show ?thesis
    using slugify_other_values [of Null "''[object Object]''" "Boolean True" None TypeError] n
    by simp
qed

end
